theory Spec2Isabelle
  imports Main "HOL-Library.Word"
begin

section \<open>Go library functions the two packages call\<close>

text \<open>
  A Go string is a sequence of bytes; \<^typ>\<open>string\<close> is a list of 8-bit characters.
  \<open>int64\<close> is \<^typ>\<open>64 word\<close>, read as a signed number with \<^const>\<open>sint\<close>.
\<close>

type_synonym int64 = "64 word"

text \<open>
  A \<open>float64\<close> is carried as its 64-bit IEEE 754 pattern: the code never computes with
  the averages, it only moves them from the source row to the destination row.
\<close>

type_synonym float64 = "64 word"

subsection \<open>\<open>strconv\<close>: decimal rendering, as \<open>%v\<close> prints an \<open>int64\<close>\<close>

text \<open>
  The loop of \<open>strconv.formatBits\<close> for base 10: digits are produced from the least
  significant one and written in front of what is already there.
\<close>

definition digit :: "nat \<Rightarrow> char" where
  "digit d = ''0123456789'' ! d"

fun formatBits :: "nat \<Rightarrow> string \<Rightarrow> string" where
  "formatBits u a =
     (if 10 \<le> u then formatBits (u div 10) (digit (u mod 10) # a)
      else digit u # a)"

declare formatBits.simps [simp del]

definition FormatInt :: "int \<Rightarrow> string" where
  "FormatInt i = (if i < 0 then CHR ''-'' # formatBits (nat (- i)) [] else formatBits (nat i) [])"

text \<open>Reading a string of decimal digits back, most significant digit first.\<close>

definition decimal_value :: "string \<Rightarrow> nat" where
  "decimal_value ds = foldl (\<lambda>acc c. 10 * acc + (of_char c - 48)) 0 ds"

text \<open>
  The reading the word "decimal" stands for: an optional minus sign, then the digits.
\<close>

definition decimal_int :: "string \<Rightarrow> int" where
  "decimal_int ds =
     (case ds of
        [] \<Rightarrow> 0
      | c # cs \<Rightarrow> if c = CHR ''-'' then - int (decimal_value cs) else int (decimal_value ds))"

subsection \<open>\<open>time.Time\<close>\<close>

text \<open>
  A \<open>time.Time\<close> as far as the code reads it: \<open>Unix()\<close> gives the seconds since the
  epoch as an \<open>int64\<close>; the nanoseconds within the second are carried along.
\<close>

record Time =
  unixSec :: int64
  nsec :: "32 word"

definition Unix :: "Time \<Rightarrow> int64" where
  "Unix t = unixSec t"

section \<open>Package \<open>spanner\<close>: \<open>query_stats.go\<close>\<close>

record QueryStat =
  InsertID :: string
  IntervalEnd :: Time
  Text :: string
  TextTruncated :: bool
  TextFingerprint :: int64
  ExecuteCount :: int64
  AvgLatencySeconds :: float64
  AvgRows :: float64
  AvgBytes :: float64
  AvgRowsScanned :: float64
  AvgCPUSeconds :: float64

text \<open>
  \<open>fmt.Sprintf("%v-_-%v", s.IntervalEnd.Unix(), s.TextFingerprint)\<close>: both operands are
  \<open>int64\<close> and print in decimal.
\<close>

definition insertID_text :: "QueryStat \<Rightarrow> string" where
  "insertID_text s =
     FormatInt (sint (Unix (IntervalEnd s))) @ ''-_-'' @ FormatInt (sint (TextFingerprint s))"

text \<open>
  \<open>ToInsertID\<close> has a pointer receiver: it stores the identifier in the record and
  returns it. The model returns the string together with the record as it is afterwards.
\<close>

definition ToInsertID :: "QueryStat \<Rightarrow> string \<times> QueryStat" where
  "ToInsertID s = (let s' = s\<lparr>InsertID := insertID_text s\<rparr> in (InsertID s', s'))"


subsection \<open>The query template\<close>

text \<open>
  The part of \<open>text/template\<close> that \<open>queryStatsTopMinute\<close> uses: literal text and
  actions of the form \<open>{{.Field}}\<close>. Parsing gives \<open>None\<close> for an action that is not
  closed or has another form. Executing an action prints the field of the data value,
  here a \<open>QueryStatsParam\<close>, without any escaping.
\<close>

datatype node = TextNode string | FieldNode string

fun parseText :: "string \<Rightarrow> string \<Rightarrow> node list option"
  and parseAction :: "string \<Rightarrow> string \<Rightarrow> node list option" where
  "parseText txt [] = Some (if txt = [] then [] else [TextNode txt])"
| "parseText txt [c] = Some [TextNode (txt @ [c])]"
| "parseText txt (c # d # s) =
     (if c = CHR ''{'' \<and> d = CHR ''{''
      then map_option (\<lambda>ns. if txt = [] then ns else TextNode txt # ns) (parseAction [] s)
      else parseText (txt @ [c]) (d # s))"
| "parseAction act [] = None"
| "parseAction act [c] = None"
| "parseAction act (c # d # s) =
     (if c = CHR ''}'' \<and> d = CHR ''}''
      then (case act of
              [] \<Rightarrow> None
            | a # name \<Rightarrow>
                if a = CHR ''.'' \<and> name \<noteq> [] \<and> CHR '' '' \<notin> set name
                then map_option ((#) (FieldNode name)) (parseText [] s)
                else None)
      else parseAction (act @ [c]) (d # s))"

definition template_Parse :: "string \<Rightarrow> node list option" where
  "template_Parse src = parseText [] src"

definition queryStatsTopMinute :: string where
  "queryStatsTopMinute =
     ''\<newline>SELECT\<newline>  text,\<newline>  text_truncated,\<newline>  text_fingerprint,\<newline>  interval_end,\<newline>  execution_count,\<newline>  avg_latency_seconds,\<newline>  avg_rows,\<newline>  avg_bytes,\<newline>  avg_rows_scanned,\<newline>  avg_cpu_seconds\<newline>FROM {{.Table}}\<newline>''"

definition queryStatsTopMinuteTable :: string where
  "queryStatsTopMinuteTable = ''spanner_sys.query_stats_top_minute''"

definition queryStatsTop10MinuteTable :: string where
  "queryStatsTop10MinuteTable = ''spanner_sys.query_stats_top_10minute''"

definition queryStatsTopHourTable :: string where
  "queryStatsTopHourTable = ''spanner_sys.query_stats_top_hour''"

record QueryStatsParam =
  Table :: string

text \<open>
  Errors of package \<open>spanner\<close>: what a library reports (template, database, warehouse),
  and \<open>errors.WithStack\<close> around it.
\<close>

datatype spanner_error = LibraryError string | WithStack spanner_error

fun execNode :: "QueryStatsParam \<Rightarrow> node \<Rightarrow> spanner_error + string" where
  "execNode p (TextNode t) = Inr t"
| "execNode p (FieldNode f) =
     (if f = ''Table'' then Inr (Table p)
      else Inl (LibraryError (''can not evaluate field '' @ f)))"

fun template_Execute :: "node list \<Rightarrow> string \<Rightarrow> QueryStatsParam \<Rightarrow> spanner_error + string" where
  "template_Execute [] buf p = Inr buf"
| "template_Execute (n # ns) buf p =
     (case execNode p n of
        Inl err \<Rightarrow> Inl err
      | Inr out \<Rightarrow> template_Execute ns (buf @ out) p)"

text \<open>
  The service holds the parsed template; its two clients are the database, which answers
  a statement with the events of a row iterator, and the warehouse (below).
\<close>

record QueryStatsCopyService =
  queryStatsTopQueryTemplate :: "node list"

definition NewQueryStatsCopyService :: "spanner_error + QueryStatsCopyService" where
  "NewQueryStatsCopyService =
     (case template_Parse queryStatsTopMinute of
        None \<Rightarrow> Inl (LibraryError ''template: getQueryStatsTopQuery'')
      | Some tmpl \<Rightarrow> Inr \<lparr>queryStatsTopQueryTemplate = tmpl\<rparr>)"

text \<open>
  The first step of \<open>GetQueryStats\<close>: the statement text, from the template and the
  \<open>table\<close> argument.
\<close>

definition GetQueryStats_statement :: "QueryStatsCopyService \<Rightarrow> string \<Rightarrow> spanner_error + string" where
  "GetQueryStats_statement s table =
     template_Execute (queryStatsTopQueryTemplate s) [] \<lparr>Table = table\<rparr>"

text \<open>
  One step of the row iterator: \<open>iter.Next()\<close> fails, or gives a row, which
  \<open>row.ToStruct\<close> decodes or fails to decode. The end of the list is \<open>iterator.Done\<close>.
\<close>

datatype row_event = NextFailed spanner_error | NextRow "spanner_error + QueryStat"

fun readRows :: "row_event list \<Rightarrow> QueryStat list \<Rightarrow> spanner_error + QueryStat list" where
  "readRows [] rets = Inr rets"
| "readRows (NextFailed err # it) rets = Inl (WithStack err)"
| "readRows (NextRow (Inl err) # it) rets = Inl (WithStack err)"
| "readRows (NextRow (Inr result) # it) rets = readRows it (rets @ [result])"

definition GetQueryStats ::
  "(string \<Rightarrow> row_event list) \<Rightarrow> QueryStatsCopyService \<Rightarrow> string \<Rightarrow> spanner_error + QueryStat list" where
  "GetQueryStats spannerQuery s table =
     (case GetQueryStats_statement s table of
        Inl err \<Rightarrow> Inl err
      | Inr stmt \<Rightarrow> readRows (spannerQuery stmt) [])"

subsection \<open>Copying to the warehouse\<close>

datatype FieldType =
  TimestampFieldType | StringFieldType | BooleanFieldType | IntegerFieldType | FloatFieldType

record FieldSchema =
  Name :: string
  Required :: bool
  Type :: FieldType

definition queryStatsBigQueryTableSchema :: "FieldSchema list" where
  "queryStatsBigQueryTableSchema =
     [\<lparr>Name = ''IntervalEnd'', Required = True, Type = TimestampFieldType\<rparr>,
      \<lparr>Name = ''Text'', Required = True, Type = StringFieldType\<rparr>,
      \<lparr>Name = ''TextTruncated'', Required = True, Type = BooleanFieldType\<rparr>,
      \<lparr>Name = ''TextFingerprint'', Required = True, Type = IntegerFieldType\<rparr>,
      \<lparr>Name = ''ExecuteCount'', Required = True, Type = IntegerFieldType\<rparr>,
      \<lparr>Name = ''AvgLatencySeconds'', Required = True, Type = FloatFieldType\<rparr>,
      \<lparr>Name = ''AvgRows'', Required = True, Type = FloatFieldType\<rparr>,
      \<lparr>Name = ''AvgBytes'', Required = True, Type = FloatFieldType\<rparr>,
      \<lparr>Name = ''AvgRowsScanned'', Required = True, Type = FloatFieldType\<rparr>,
      \<lparr>Name = ''AvgCPUSeconds'', Required = True, Type = FloatFieldType\<rparr>]"

text \<open>
  \<open>qss\<close> is a slice of pointers. A pointer is \<open>None\<close> (nil) or the address of a record in
  the heap; two entries of the slice may hold the same address. A \<open>StructSaver\<close> keeps the
  pointer, not a copy of the record.
\<close>

type_synonym addr = nat
type_synonym heap = "addr \<Rightarrow> QueryStat"

record StructSaver =
  Schema :: "FieldSchema list"
  SaverInsertID :: string
  Struct :: "addr option"

record Dataset =
  DatasetProjectID :: string
  DatasetID :: string

text \<open>One call of \<open>Inserter.Put\<close>: the table it addresses and the rows it is given.\<close>

record PutCall =
  putProject :: string
  putDataset :: string
  putTable :: string
  putRows :: "StructSaver list"

record store =
  records :: heap
  puts :: "PutCall list"

text \<open>
  The loop of \<open>ToBigQuery\<close>. Calling \<open>ToInsertID\<close> through a nil pointer panics: the
  result is \<open>None\<close>.
\<close>

fun wrapAll :: "addr option list \<Rightarrow> heap \<Rightarrow> StructSaver list \<Rightarrow> (heap \<times> StructSaver list) option" where
  "wrapAll [] h sss = Some (h, sss)"
| "wrapAll (qs # qss) h sss =
     (case qs of
        None \<Rightarrow> None
      | Some a \<Rightarrow>
          (case ToInsertID (h a) of
             (insertID, s') \<Rightarrow>
               wrapAll qss (h(a := s'))
                 (sss @ [\<lparr>Schema = queryStatsBigQueryTableSchema, SaverInsertID = insertID,
                          Struct = qs\<rparr>])))"

text \<open>
  \<open>ToBigQuery\<close> returns what the one \<open>Put\<close> returns; \<open>Put\<close> is the warehouse's answer to
  a call, given the records the rows point to. A nil \<open>dataset\<close> panics when its fields
  are read, after the loop.
\<close>

definition ToBigQuery ::
  "(PutCall \<Rightarrow> heap \<Rightarrow> spanner_error option) \<Rightarrow> Dataset option \<Rightarrow> string \<Rightarrow> addr option list
     \<Rightarrow> store \<Rightarrow> (spanner_error option \<times> store) option" where
  "ToBigQuery Put dataset table qss st =
     (case wrapAll qss (records st) [] of
        None \<Rightarrow> None
      | Some (h, sss) \<Rightarrow>
          (case dataset of
             None \<Rightarrow> None
           | Some d \<Rightarrow>
               (let call = \<lparr>putProject = DatasetProjectID d, putDataset = DatasetID d,
                            putTable = table, putRows = sss\<rparr>
                in Some (Put call h, \<lparr>records = h, puts = puts st @ [call]\<rparr>))))"

section \<open>Package \<open>metadata\<close>: \<open>metadata.go\<close>\<close>

subsection \<open>\<open>strings.Split\<close>\<close>

text \<open>
  \<open>strings.Split(s, sep)\<close> for a separator of one byte, which is how the package calls
  it: while the separator occurs, the piece before its first occurrence is cut off and
  the search goes on behind it; what is left is the last piece.
\<close>

function strings_Split :: "string \<Rightarrow> char \<Rightarrow> string list" where
  "strings_Split s sep =
     (if sep \<in> set s
      then takeWhile (\<lambda>c. c \<noteq> sep) s # strings_Split (tl (dropWhile (\<lambda>c. c \<noteq> sep) s)) sep
      else [s])"
  by pat_completeness auto
termination
proof (relation "measure (\<lambda>(s, sep). length s)")
  show "wf (measure (\<lambda>(s, sep). length s))"
    by simp
next
  fix s :: string and sep :: char
  assume "sep \<in> set s"
  then have "0 < length s"
    by (cases s) simp_all
  moreover have "length (dropWhile (\<lambda>c. c \<noteq> sep) s) \<le> length s"
    by (rule length_dropWhile_le)
  ultimately have "length (tl (dropWhile (\<lambda>c. c \<noteq> sep) s)) < length s"
    unfolding length_tl by arith
  then show "((tl (dropWhile (\<lambda>c. c \<noteq> sep) s), sep), (s, sep)) \<in> measure (\<lambda>(s, sep). length s)"
    by simp
qed

declare strings_Split.simps [simp del]

subsection \<open>Errors\<close>

text \<open>
  Modelled from the spec: the constructors \<open>NewErrNotFound\<close> and \<open>NewErrInvalidArgument\<close>
  are declared in a file of the package that is not among the sources. The spec names
  the kinds \<open>NotFound\<close> and \<open>InvalidArgument\<close>; the model keeps the three arguments of
  each call (message, key-value pairs, cause). \<open>Errorf\<close> is an error made by
  \<open>fmt.Errorf\<close> or \<open>xerrors.Errorf\<close> from a message alone, \<open>Wrapf\<close> one made by
  \<open>xerrors.Errorf\<close> with \<open>%w\<close> around a cause, \<open>Library\<close> one reported by the HTTP or
  metadata client.
\<close>

datatype error =
    ErrNotFound string "(string \<times> string) list" "error option"
  | ErrInvalidArgument string "(string \<times> string) list" "error option"
  | Errorf string
  | Wrapf string error
  | Library string

text \<open>
  Modelled from the spec: \<open>NewErrNotFound\<close> and \<open>NewErrInvalidArgument\<close>, missing
  from the sources with the error types, make the error of their kind from their three
  arguments.
\<close>

definition NewErrNotFound :: "string \<Rightarrow> (string \<times> string) list \<Rightarrow> error option \<Rightarrow> error" where
  "NewErrNotFound message kv err = ErrNotFound message kv err"

definition NewErrInvalidArgument :: "string \<Rightarrow> (string \<times> string) list \<Rightarrow> error option \<Rightarrow> error" where
  "NewErrInvalidArgument message kv err = ErrInvalidArgument message kv err"

subsection \<open>What the process sees\<close>

text \<open>
  \<open>onGCE\<close> is \<open>metadata.OnGCE()\<close>, \<open>environ\<close> the environment of the process,
  \<open>metadataProjectID\<close>, \<open>instanceAttributeValue\<close> and \<open>projectAttributeValue\<close> the
  answers of the metadata client, \<open>httpNewRequest\<close> and \<open>httpDo\<close> those of the HTTP
  client for a URL.
\<close>

datatype http_reply =
    DoFailed error
  | ReadFailed error
  | Response int string

record world =
  onGCE :: bool
  environ :: "string \<rightharpoonup> string"
  metadataProjectID :: "error + string"
  instanceAttributeValue :: "string \<Rightarrow> error + string"
  projectAttributeValue :: "string \<Rightarrow> error + string"
  httpNewRequest :: "string \<Rightarrow> error option"
  httpDo :: "string \<Rightarrow> http_reply"

text \<open>\<open>os.Getenv\<close>: the value, which is empty if the variable is not present.\<close>

definition os_Getenv :: "world \<Rightarrow> string \<Rightarrow> string" where
  "os_Getenv w key = (case environ w key of None \<Rightarrow> [] | Some v \<Rightarrow> v)"

definition OnGCP :: "world \<Rightarrow> bool" where
  "OnGCP w = onGCE w"

definition getMetadata :: "world \<Rightarrow> string \<Rightarrow> error + string" where
  "getMetadata w path =
     (let url = ''http://metadata.google.internal/computeMetadata/v1/instance/'' @ path in
      case httpNewRequest w url of
        Some err \<Rightarrow> Inl (Wrapf (''failed http.NewRequest. path='' @ path @ '' : '') err)
      | None \<Rightarrow>
          (case httpDo w url of
             DoFailed err \<Rightarrow> Inl (Wrapf (''failed http.SendReq. path='' @ path @ '' : '') err)
           | ReadFailed err \<Rightarrow>
               Inl (Wrapf (''failed read response.Body. path='' @ path @ '' : '') err)
           | Response statusCode b \<Rightarrow>
               if statusCode \<noteq> 200
               then Inl (Errorf (''metadata server response is '' @ FormatInt statusCode @ '':'' @ b))
               else Inr b))"

subsection \<open>The operations\<close>

definition ProjectID :: "world \<Rightarrow> error + string" where
  "ProjectID w =
     (if \<not> onGCE w then
        (let p = os_Getenv w ''GOOGLE_CLOUD_PROJECT'' in
         if p \<noteq> [] then Inr p
         else
           (let p = os_Getenv w ''GCLOUD_PROJECT'' in
            if p \<noteq> [] then Inr p
            else Inl (NewErrNotFound
                   ''project id environment valiable is not found. plz set $GOOGLE_CLOUD_PROJECT''
                   [] None)))
      else
        (case metadataProjectID w of
           Inl err \<Rightarrow> Inl (Wrapf ''failed get project id from metadata server: '' err)
         | Inr projectID \<Rightarrow>
             if projectID = [] then Inl (NewErrNotFound ''project id is not found'' [] None)
             else Inr projectID))"

definition ServiceAccountEmail :: "world \<Rightarrow> error + string" where
  "ServiceAccountEmail w =
     (if \<not> onGCE w then Inr (os_Getenv w ''GCLOUD_SERVICE_ACCOUNT'')
      else
        (case getMetadata w ''service-accounts/default/email'' of
           Inl err \<Rightarrow> Inl (Wrapf ''failed get ServiceAccountEmail : '' err)
         | Inr sa \<Rightarrow> Inr sa))"

definition ServiceAccountName :: "world \<Rightarrow> error + string" where
  "ServiceAccountName w =
     (case ServiceAccountEmail w of
        Inl err \<Rightarrow> Inl err
      | Inr sa \<Rightarrow>
          (let l = strings_Split sa CHR ''@'' in
           if length l \<noteq> 2 then Inl (Errorf (''invalid ServiceAccountEmail. email='' @ sa))
           else Inr (l ! 0)))"

definition ServiceAccountID :: "world \<Rightarrow> error + string" where
  "ServiceAccountID w =
     (case ServiceAccountEmail w of
        Inl err \<Rightarrow> Inl err
      | Inr sa \<Rightarrow>
          (case ProjectID w of
             Inl err \<Rightarrow> Inl err
           | Inr pID \<Rightarrow> Inr (''projects/'' @ pID @ ''/serviceAccounts/'' @ sa)))"

definition ExtractionRegion :: "string \<Rightarrow> error + string" where
  "ExtractionRegion metaZone =
     (let l = strings_Split metaZone CHR ''/'' in
      if length l < 1
      then Inl (NewErrInvalidArgument
             ''required format : projects/[NUMERIC_PROJECT_ID]/zones/[ZONE]''
             [(''input_argument'', metaZone)] None)
      else
        (let v = l ! (length l - 1) in
         if length v < 3
         then Inl (NewErrInvalidArgument
                ''required format : projects/[NUMERIC_PROJECT_ID]/zones/[ZONE]''
                [(''input_argument'', metaZone)] None)
         else Inr (take (length v - 2) v)))"

definition ExtractionZone :: "string \<Rightarrow> error + string" where
  "ExtractionZone metaZone =
     (let l = strings_Split metaZone CHR ''/'' in
      if length l < 1
      then Inl (NewErrInvalidArgument
             ''required format : projects/[NUMERIC_PROJECT_ID]/zones/[ZONE]''
             [(''input_argument'', metaZone)] None)
      else Inr (l ! (length l - 1)))"

definition Region :: "world \<Rightarrow> error + string" where
  "Region w =
     (if \<not> onGCE w then Inr (os_Getenv w ''INSTANCE_REGION'')
      else
        (case getMetadata w ''zone'' of
           Inl err \<Rightarrow> Inl (Wrapf ''failed get Zone : '' err)
         | Inr zone \<Rightarrow> ExtractionRegion zone))"

definition Zone :: "world \<Rightarrow> error + string" where
  "Zone w =
     (if \<not> onGCE w then Inr (os_Getenv w ''INSTANCE_ZONE'')
      else
        (case getMetadata w ''zone'' of
           Inl err \<Rightarrow> Inl (Wrapf ''failed get Zone : '' err)
         | Inr zone \<Rightarrow> ExtractionZone zone))"

definition GetInstanceAttribute :: "world \<Rightarrow> string \<Rightarrow> error + string" where
  "GetInstanceAttribute w key =
     (if \<not> onGCE w then Inr (os_Getenv w (''INSTANCE_'' @ key))
      else
        (case instanceAttributeValue w key of
           Inl err \<Rightarrow> Inl err
         | Inr v \<Rightarrow> Inr v))"

definition GetProjectAttribute :: "world \<Rightarrow> string \<Rightarrow> error + string" where
  "GetProjectAttribute w key =
     (if \<not> onGCE w then Inr (os_Getenv w (''PROJECT_'' @ key))
      else
        (case projectAttributeValue w key of
           Inl err \<Rightarrow> Inl err
         | Inr v \<Rightarrow> Inr v))"

text \<open>The substring after the last occurrence of a byte; the whole string if there is none.\<close>

definition after_last :: "char \<Rightarrow> string \<Rightarrow> string" where
  "after_last sep s = rev (takeWhile (\<lambda>c. c \<noteq> sep) (rev s))"

section \<open>Sample values\<close>

definition sample_stat :: QueryStat where
  "sample_stat =
     \<lparr>InsertID = [], IntervalEnd = \<lparr>unixSec = 1577836800, nsec = 0\<rparr>,
      Text = ''SELECT 1'', TextTruncated = False, TextFingerprint = 42, ExecuteCount = 3,
      AvgLatencySeconds = 0, AvgRows = 0, AvgBytes = 0, AvgRowsScanned = 0, AvgCPUSeconds = 0\<rparr>"

definition sample_stat2 :: QueryStat where
  "sample_stat2 = sample_stat\<lparr>Text := ''SELECT 2'', TextFingerprint := - 7\<rparr>"

definition sample_world :: world where
  "sample_world =
     \<lparr>onGCE = False, environ = Map.empty,
      metadataProjectID = Inl (Library ''metadata: not on GCE''),
      instanceAttributeValue = (\<lambda>key. Inl (Library ''metadata: not on GCE'')),
      projectAttributeValue = (\<lambda>key. Inl (Library ''metadata: not on GCE'')),
      httpNewRequest = (\<lambda>url. None),
      httpDo = (\<lambda>url. DoFailed (Library ''dial tcp: no such host''))\<rparr>"

definition sample_heap :: heap where
  "sample_heap = (\<lambda>a. sample_stat)(1 := sample_stat2)"

definition sample_dataset :: Dataset where
  "sample_dataset = \<lparr>DatasetProjectID = ''proj'', DatasetID = ''stats''\<rparr>"

section \<open>Decimal rendering can be read back\<close>

lemma formatBits_append: "formatBits u a = formatBits u [] @ a"
proof (induction u arbitrary: a rule: less_induct)
  case (less u)
  show ?case
  proof (cases "10 \<le> u")
    case True
    define c where "c = digit (u mod 10)"
    from True have d: "u div 10 < u" by simp
    have "formatBits u a = formatBits (u div 10) (c # a)"
      using True by (simp add: formatBits.simps [of u a] c_def)
    also have "\<dots> = formatBits (u div 10) [] @ (c # a)"
      by (rule less.IH [OF d])
    also have "\<dots> = (formatBits (u div 10) [] @ [c]) @ a"
      by simp
    also have "formatBits (u div 10) [] @ [c] = formatBits (u div 10) [c]"
      by (rule less.IH [OF d, symmetric])
    also have "formatBits (u div 10) [c] = formatBits u []"
      using True by (simp add: formatBits.simps [of u "[]"] c_def)
    finally show ?thesis .
  next
    case False
    then show ?thesis
      by (simp add: formatBits.simps [of u a] formatBits.simps [of u "[]"])
  qed
qed

lemma formatBits_small: "u < 10 \<Longrightarrow> formatBits u [] = [digit u]"
  by (simp add: formatBits.simps [of u "[]"])

lemma formatBits_large:
  "10 \<le> u \<Longrightarrow> formatBits u [] = formatBits (u div 10) [] @ [digit (u mod 10)]"
  using formatBits_append [of "u div 10" "[digit (u mod 10)]"]
  by (simp add: formatBits.simps [of u "[]"])

lemma digit_code: "d < 10 \<Longrightarrow> of_char (digit d) = d + 48"
proof -
  assume "d < 10"
  then consider "d = 0" | "d = 1" | "d = 2" | "d = 3" | "d = 4" | "d = 5" | "d = 6"
    | "d = 7" | "d = 8" | "d = 9"
    by atomize_elim arith
  then show ?thesis
    by cases (simp_all add: digit_def)
qed

lemma decimal_value_snoc:
  "decimal_value (ds @ [c]) = 10 * decimal_value ds + (of_char c - 48)"
  by (simp add: decimal_value_def)

lemma decimal_value_formatBits: "decimal_value (formatBits u []) = u"
proof (induction u rule: less_induct)
  case (less u)
  show ?case
  proof (cases "10 \<le> u")
    case True
    then have d: "u div 10 < u" by simp
    have m: "of_char (digit (u mod 10)) - 48 = u mod 10"
      by (simp add: digit_code)
    have "decimal_value (formatBits u []) = 10 * (u div 10) + u mod 10"
      unfolding formatBits_large [OF True] decimal_value_snoc less.IH [OF d] m ..
    then show ?thesis by simp
  next
    case False
    then have "u < 10" by simp
    then show ?thesis
      by (simp add: formatBits_small decimal_value_def digit_code)
  qed
qed

lemma formatBits_inj: "formatBits u [] = formatBits v [] \<Longrightarrow> u = v"
  by (metis decimal_value_formatBits)

lemma formatBits_not_Nil: "formatBits u [] \<noteq> []"
  by (cases "10 \<le> u") (simp_all add: formatBits_large formatBits_small)

lemma formatBits_digits:
  "c \<in> set (formatBits u []) \<Longrightarrow> \<exists>d<10. c = digit d"
proof (induction u rule: less_induct)
  case (less u)
  show ?case
  proof (cases "10 \<le> u")
    case True
    then have d: "u div 10 < u" by simp
    from less.prems consider "c \<in> set (formatBits (u div 10) [])" | "c = digit (u mod 10)"
      by (auto simp: formatBits_large [OF True])
    then show ?thesis
    proof cases
      case 1
      then show ?thesis by (rule less.IH [OF d])
    next
      case 2
      have "u mod 10 < 10" by simp
      with 2 show ?thesis by blast
    qed
  next
    case False
    then have "u < 10" by simp
    with less.prems show ?thesis by (auto simp: formatBits_small)
  qed
qed

lemma formatBits_no_minus: "formatBits u [] \<noteq> CHR ''-'' # ds"
proof
  assume "formatBits u [] = CHR ''-'' # ds"
  then have "CHR ''-'' \<in> set (formatBits u [])" by simp
  then obtain d where d: "d < 10" "CHR ''-'' = digit d"
    using formatBits_digits by blast
  have "(of_char (CHR ''-'') :: nat) = 45" by simp
  with d digit_code [of d] show False by simp
qed

lemma FormatInt_inj: "FormatInt i = FormatInt j \<Longrightarrow> i = j"
proof -
  assume eq: "FormatInt i = FormatInt j"
  consider "i < 0" "j < 0" | "0 \<le> i" "0 \<le> j" | "i < 0" "0 \<le> j" | "0 \<le> i" "j < 0"
    by linarith
  then show ?thesis
  proof cases
    case 1
    with eq have "formatBits (nat (- i)) [] = formatBits (nat (- j)) []"
      by (simp add: FormatInt_def)
    then have "nat (- i) = nat (- j)" by (rule formatBits_inj)
    with 1 show ?thesis by simp
  next
    case 2
    with eq have "formatBits (nat i) [] = formatBits (nat j) []"
      by (simp add: FormatInt_def)
    then have "nat i = nat j" by (rule formatBits_inj)
    with 2 show ?thesis by simp
  next
    case 3
    with eq have "formatBits (nat j) [] = CHR ''-'' # formatBits (nat (- i)) []"
      by (simp add: FormatInt_def)
    then show ?thesis by (simp add: formatBits_no_minus)
  next
    case 4
    with eq have "formatBits (nat i) [] = CHR ''-'' # formatBits (nat (- j)) []"
      by (simp add: FormatInt_def)
    then show ?thesis by (simp add: formatBits_no_minus)
  qed
qed

lemma decimal_int_FormatInt: "decimal_int (FormatInt i) = i"
proof (cases "i < 0")
  case True
  then show ?thesis
    by (simp add: FormatInt_def decimal_int_def decimal_value_formatBits)
next
  case False
  obtain c cs where cs: "formatBits (nat i) [] = c # cs"
    using formatBits_not_Nil [of "nat i"] by (cases "formatBits (nat i) []") auto
  then have "c \<noteq> CHR ''-''"
    using formatBits_no_minus [of "nat i" cs] by auto
  with cs have "decimal_int (formatBits (nat i) []) = int (decimal_value (formatBits (nat i) []))"
    by (simp add: decimal_int_def)
  with False show ?thesis
    by (simp add: FormatInt_def decimal_value_formatBits)
qed

lemmas FormatInt_eval = FormatInt_def formatBits_large formatBits_small digit_def

section \<open>The insert identifier\<close>

lemma insertID_text_update [simp]: "insertID_text (s\<lparr>InsertID := x\<rparr>) = insertID_text s"
  by (simp add: insertID_text_def)

lemma ToInsertID_eq: "ToInsertID s = (insertID_text s, s\<lparr>InsertID := insertID_text s\<rparr>)"
  by (simp add: ToInsertID_def)

lemma insertID_text_inj:
  assumes "IntervalEnd s = IntervalEnd t" and "insertID_text s = insertID_text t"
  shows "TextFingerprint s = TextFingerprint t"
proof -
  from assms have "FormatInt (sint (TextFingerprint s)) = FormatInt (sint (TextFingerprint t))"
    by (simp add: insertID_text_def)
  then have "sint (TextFingerprint s) = sint (TextFingerprint t)"
    by (rule FormatInt_inj)
  then show ?thesis
    by (rule signed_word_eqI)
qed

text \<open>
  C1. \<open>ToInsertID\<close> returns the decimal Unix seconds of \<open>IntervalEnd\<close>, then \<open>-_-\<close>, then
  the decimal \<open>TextFingerprint\<close>; reading either number back as a decimal gives the
  \<open>int64\<close> it came from. Two records with the same \<open>IntervalEnd\<close> and \<open>TextFingerprint\<close>
  get the same string, and two records with the same \<open>IntervalEnd\<close> and different
  \<open>TextFingerprint\<close> get different strings.
\<close>

theorem ToInsertID_decimal:
  "fst (ToInsertID s) =
     FormatInt (sint (Unix (IntervalEnd s))) @ ''-_-'' @ FormatInt (sint (TextFingerprint s))
   \<and> decimal_int (FormatInt (sint (Unix (IntervalEnd s)))) = sint (Unix (IntervalEnd s))
   \<and> decimal_int (FormatInt (sint (TextFingerprint s))) = sint (TextFingerprint s)
   \<and> (IntervalEnd s = IntervalEnd t \<and> TextFingerprint s = TextFingerprint t
        \<longrightarrow> fst (ToInsertID s) = fst (ToInsertID t))
   \<and> (IntervalEnd s = IntervalEnd t \<and> TextFingerprint s \<noteq> TextFingerprint t
        \<longrightarrow> fst (ToInsertID s) \<noteq> fst (ToInsertID t))"
proof -
  have "fst (ToInsertID s) =
     FormatInt (sint (Unix (IntervalEnd s))) @ ''-_-'' @ FormatInt (sint (TextFingerprint s))"
    by (simp add: ToInsertID_eq insertID_text_def)
  moreover have "IntervalEnd s = IntervalEnd t \<and> TextFingerprint s = TextFingerprint t
        \<longrightarrow> fst (ToInsertID s) = fst (ToInsertID t)"
    by (simp add: ToInsertID_eq insertID_text_def)
  moreover have "IntervalEnd s = IntervalEnd t \<and> TextFingerprint s \<noteq> TextFingerprint t
        \<longrightarrow> fst (ToInsertID s) \<noteq> fst (ToInsertID t)"
    using insertID_text_inj [of s t] by (auto simp: ToInsertID_eq)
  ultimately show ?thesis
    by (simp only: decimal_int_FormatInt simp_thms)
qed

theorem ToInsertID_decimal_witness:
  "fst (ToInsertID sample_stat) = ''1577836800-_-42''
   \<and> fst (ToInsertID sample_stat2) = ''1577836800-_--7''
   \<and> IntervalEnd sample_stat = IntervalEnd sample_stat2
   \<and> TextFingerprint sample_stat \<noteq> TextFingerprint sample_stat2
   \<and> fst (ToInsertID sample_stat) \<noteq> fst (ToInsertID sample_stat2)
   \<and> TextFingerprint sample_stat = TextFingerprint (sample_stat\<lparr>Text := ''other''\<rparr>)
   \<and> fst (ToInsertID sample_stat) = fst (ToInsertID (sample_stat\<lparr>Text := ''other''\<rparr>))"
proof -
  have u1: "sint (Unix (IntervalEnd sample_stat)) = 1577836800"
    and f1: "sint (TextFingerprint sample_stat) = 42"
    by (simp_all add: sample_stat_def Unix_def)
  have u2: "sint (Unix (IntervalEnd sample_stat2)) = 1577836800"
    and f2: "sint (TextFingerprint sample_stat2) = - 7"
    by (simp_all add: sample_stat_def sample_stat2_def Unix_def)
  have d1: "FormatInt 1577836800 = ''1577836800''" and d2: "FormatInt 42 = ''42''"
    and d3: "FormatInt (- 7) = ''-7''"
    by (simp_all add: FormatInt_eval)
  have ie: "IntervalEnd sample_stat = IntervalEnd sample_stat2"
    by (simp add: sample_stat_def sample_stat2_def)
  have fp: "TextFingerprint sample_stat \<noteq> TextFingerprint sample_stat2"
    by (simp add: sample_stat_def sample_stat2_def)
  have ie': "IntervalEnd sample_stat = IntervalEnd (sample_stat\<lparr>Text := ''other''\<rparr>)"
    and fp': "TextFingerprint sample_stat = TextFingerprint (sample_stat\<lparr>Text := ''other''\<rparr>)"
    by simp_all
  have "fst (ToInsertID sample_stat) = ''1577836800-_-42''"
    using ToInsertID_decimal [of sample_stat sample_stat] by (simp only: u1 f1 d1 d2) simp
  moreover have "fst (ToInsertID sample_stat2) = ''1577836800-_--7''"
    using ToInsertID_decimal [of sample_stat2 sample_stat2] by (simp only: u2 f2 d1 d3) simp
  moreover have "fst (ToInsertID sample_stat) \<noteq> fst (ToInsertID sample_stat2)"
    using ToInsertID_decimal [of sample_stat sample_stat2] ie fp by blast
  moreover have "fst (ToInsertID sample_stat) = fst (ToInsertID (sample_stat\<lparr>Text := ''other''\<rparr>))"
    using ToInsertID_decimal [of sample_stat "sample_stat\<lparr>Text := ''other''\<rparr>"] ie' fp' by blast
  ultimately show ?thesis
    using ie fp fp' by blast
qed

text \<open>
  C10. \<open>ToInsertID\<close> changes only the \<open>InsertID\<close> field of its receiver; the other ten
  fields are as before, and the string returned is the one stored in \<open>InsertID\<close>.
\<close>

theorem ToInsertID_frame:
  "snd (ToInsertID s) = s\<lparr>InsertID := fst (ToInsertID s)\<rparr>
   \<and> InsertID (snd (ToInsertID s)) = fst (ToInsertID s)
   \<and> IntervalEnd (snd (ToInsertID s)) = IntervalEnd s
   \<and> Text (snd (ToInsertID s)) = Text s
   \<and> TextTruncated (snd (ToInsertID s)) = TextTruncated s
   \<and> TextFingerprint (snd (ToInsertID s)) = TextFingerprint s
   \<and> ExecuteCount (snd (ToInsertID s)) = ExecuteCount s
   \<and> AvgLatencySeconds (snd (ToInsertID s)) = AvgLatencySeconds s
   \<and> AvgRows (snd (ToInsertID s)) = AvgRows s
   \<and> AvgBytes (snd (ToInsertID s)) = AvgBytes s
   \<and> AvgRowsScanned (snd (ToInsertID s)) = AvgRowsScanned s
   \<and> AvgCPUSeconds (snd (ToInsertID s)) = AvgCPUSeconds s"
  by (simp add: ToInsertID_def)


section \<open>Splitting at a separator\<close>

lemma takeWhile_absent: "sep \<notin> set s \<Longrightarrow> takeWhile (\<lambda>c. c \<noteq> sep) s = s"
  by (induction s) auto

lemma takeWhile_upto: "sep \<notin> set xs \<Longrightarrow> takeWhile (\<lambda>c. c \<noteq> sep) (xs @ sep # ys) = xs"
  by (induction xs) auto

lemma strings_Split_without: "sep \<notin> set s \<Longrightarrow> strings_Split s sep = [s]"
  by (simp add: strings_Split.simps [of s sep])

lemma strings_Split_with:
  "sep \<in> set s \<Longrightarrow>
     strings_Split s sep =
       takeWhile (\<lambda>c. c \<noteq> sep) s # strings_Split (tl (dropWhile (\<lambda>c. c \<noteq> sep) s)) sep"
  by (simp add: strings_Split.simps [of s sep])

lemma strings_Split_Nil: "strings_Split [] sep = [] # []"
  by (simp add: strings_Split_without)

lemma strings_Split_not_Nil: "strings_Split s sep \<noteq> []"
  by (cases "sep \<in> set s") (simp_all add: strings_Split_with strings_Split_without)

lemma strings_Split_Cons:
  "strings_Split (c # s) sep =
     (if c = sep then [] # strings_Split s sep
      else (c # hd (strings_Split s sep)) # tl (strings_Split s sep))"
proof (cases "c = sep")
  case True
  then show ?thesis
    by (simp add: strings_Split_with [of sep "sep # s"])
next
  case False
  show ?thesis
  proof (cases "sep \<in> set s")
    case True
    with False show ?thesis
      by (simp add: strings_Split_with [of sep "c # s"] strings_Split_with [of sep s])
  next
    case no: False
    with False show ?thesis
      by (simp add: strings_Split_without)
  qed
qed

lemma length_strings_Split: "length (strings_Split s sep) = Suc (count_list s sep)"
proof (induction s)
  case Nil
  show ?case by (simp add: strings_Split_Nil)
next
  case (Cons c s)
  have "length (tl (strings_Split s sep)) = count_list s sep"
    using Cons.IH by simp
  then show ?case
    using Cons.IH by (simp add: strings_Split_Cons)
qed

lemma hd_strings_Split: "hd (strings_Split s sep) = takeWhile (\<lambda>c. c \<noteq> sep) s"
proof (cases "sep \<in> set s")
  case True
  then show ?thesis by (simp add: strings_Split_with)
next
  case False
  then show ?thesis by (simp add: strings_Split_without takeWhile_absent)
qed

lemma after_last_without: "sep \<notin> set s \<Longrightarrow> after_last sep s = s"
proof -
  assume "sep \<notin> set s"
  then have tw: "takeWhile (\<lambda>c. c \<noteq> sep) (rev s) = rev s"
    by (simp add: takeWhile_absent)
  show ?thesis unfolding after_last_def tw by (rule rev_rev_ident)
qed

lemma after_last_append: "after_last sep (pre @ sep # rest) = after_last sep rest"
proof (cases "sep \<in> set rest")
  case True
  then have "sep \<in> set (rev rest)" by simp
  then have "takeWhile (\<lambda>c. c \<noteq> sep) (rev rest @ sep # rev pre) = takeWhile (\<lambda>c. c \<noteq> sep) (rev rest)"
    by (rule takeWhile_append1) simp
  then show ?thesis by (simp add: after_last_def)
next
  case False
  then have "sep \<notin> set (rev rest)" by simp
  then have "takeWhile (\<lambda>c. c \<noteq> sep) (rev rest @ sep # rev pre) = rev rest"
    by (rule takeWhile_upto)
  then have "after_last sep (pre @ sep # rest) = rest"
    unfolding after_last_def by simp
  moreover have "after_last sep rest = rest"
    using False by (rule after_last_without)
  ultimately show ?thesis by simp
qed

lemma last_strings_Split: "last (strings_Split s sep) = after_last sep s"
proof (induction s sep rule: strings_Split.induct)
  case (1 s sep)
  show ?case
  proof (cases "sep \<in> set s")
    case True
    define pre where "pre = takeWhile (\<lambda>c. c \<noteq> sep) s"
    define rest where "rest = tl (dropWhile (\<lambda>c. c \<noteq> sep) s)"
    have ne: "dropWhile (\<lambda>c. c \<noteq> sep) s \<noteq> []"
      using True by auto
    have "hd (dropWhile (\<lambda>c. c \<noteq> sep) s) = sep"
      using hd_dropWhile [OF ne] by simp
    with ne have d: "dropWhile (\<lambda>c. c \<noteq> sep) s = sep # rest"
      unfolding rest_def by (cases "dropWhile (\<lambda>c. c \<noteq> sep) s") simp_all
    have "pre @ dropWhile (\<lambda>c. c \<noteq> sep) s = s"
      unfolding pre_def by (rule takeWhile_dropWhile_id)
    then have s: "pre @ sep # rest = s"
      unfolding d .
    have "last (strings_Split s sep) = last (strings_Split rest sep)"
      using True by (simp add: strings_Split_with strings_Split_not_Nil rest_def)
    also have "\<dots> = after_last sep rest"
      unfolding rest_def by (rule "1.IH" [OF True])
    also have "\<dots> = after_last sep (pre @ sep # rest)"
      by (rule after_last_append [symmetric])
    finally show ?thesis
      unfolding s .
  next
    case False
    then show ?thesis
      by (simp add: strings_Split_without after_last_without)
  qed
qed

lemma nth_last_strings_Split:
  "strings_Split s sep ! (length (strings_Split s sep) - 1) = after_last sep s"
  using last_conv_nth [OF strings_Split_not_Nil [of s sep]] last_strings_Split [of s sep]
  by simp

lemma nth_first_strings_Split: "strings_Split s sep ! 0 = takeWhile (\<lambda>c. c \<noteq> sep) s"
  using hd_conv_nth [OF strings_Split_not_Nil [of s sep]] hd_strings_Split [of s sep]
  by simp

section \<open>Region and zone\<close>

lemma length_strings_Split_ge: "\<not> length (strings_Split s sep) < 1"
  using strings_Split_not_Nil [of s sep] by simp

lemma ExtractionZone_eq: "ExtractionZone p = Inr (after_last CHR ''/'' p)"
  unfolding ExtractionZone_def Let_def nth_last_strings_Split
  by (simp only: length_strings_Split_ge if_False)

lemma ExtractionRegion_eq:
  "ExtractionRegion p =
     (if length (after_last CHR ''/'' p) < 3
      then Inl (NewErrInvalidArgument
             ''required format : projects/[NUMERIC_PROJECT_ID]/zones/[ZONE]''
             [(''input_argument'', p)] None)
      else Inr (take (length (after_last CHR ''/'' p) - 2) (after_last CHR ''/'' p)))"
  unfolding ExtractionRegion_def Let_def nth_last_strings_Split
  by (simp only: length_strings_Split_ge if_False)

text \<open>
  C2, as amended. When the final \<open>/\<close>-separated segment of the raw zone path (the whole
  path if it has no \<open>/\<close>) is shorter than 3 characters, \<open>ExtractionRegion\<close> fails with
  \<open>InvalidArgument\<close>. \<open>ExtractionZone\<close> has no check on the length: for a path that
  contains \<open>/\<close> it returns the final segment as it is, however short.
\<close>

theorem Extraction_short_segment:
  "(length (after_last CHR ''/'' p) < 3 \<longrightarrow>
      ExtractionRegion p =
        Inl (ErrInvalidArgument ''required format : projects/[NUMERIC_PROJECT_ID]/zones/[ZONE]''
               [(''input_argument'', p)] None))
   \<and> (CHR ''/'' \<in> set p \<longrightarrow> ExtractionZone p = Inr (after_last CHR ''/'' p))"
  by (simp add: ExtractionRegion_eq ExtractionZone_eq NewErrInvalidArgument_def)

theorem Extraction_short_segment_witness:
  "after_last CHR ''/'' ''projects/123/zones/ab'' = ''ab''
   \<and> CHR ''/'' \<in> set ''projects/123/zones/ab''
   \<and> ExtractionRegion ''projects/123/zones/ab'' =
        Inl (ErrInvalidArgument ''required format : projects/[NUMERIC_PROJECT_ID]/zones/[ZONE]''
               [(''input_argument'', ''projects/123/zones/ab'')] None)
   \<and> ExtractionZone ''projects/123/zones/ab'' = Inr ''ab''"
proof -
  have seg: "after_last CHR ''/'' ''projects/123/zones/ab'' = ''ab''"
    by (simp add: after_last_def)
  have slash: "CHR ''/'' \<in> set ''projects/123/zones/ab''"
    by simp
  from seg have short: "length (after_last CHR ''/'' ''projects/123/zones/ab'') < 3"
    by simp
  note both = Extraction_short_segment [of "''projects/123/zones/ab''"]
  from both short have r: "ExtractionRegion ''projects/123/zones/ab'' =
        Inl (ErrInvalidArgument ''required format : projects/[NUMERIC_PROJECT_ID]/zones/[ZONE]''
               [(''input_argument'', ''projects/123/zones/ab'')] None)"
    by blast
  from both slash have "ExtractionZone ''projects/123/zones/ab'' =
        Inr (after_last CHR ''/'' ''projects/123/zones/ab'')"
    by blast
  then have z: "ExtractionZone ''projects/123/zones/ab'' = Inr ''ab''"
    unfolding seg .
  from seg slash r z show ?thesis
    by (intro conjI)
qed

text \<open>
  The claim as it was stated fails: a path without \<open>/\<close> is accepted by both functions,
  and \<open>ExtractionZone\<close> accepts a final segment of two characters.
\<close>

theorem Extraction_fail_counterexample:
  "CHR ''/'' \<notin> set ''us-central1-a''
   \<and> ExtractionRegion ''us-central1-a'' = Inr ''us-central1''
   \<and> ExtractionZone ''us-central1-a'' = Inr ''us-central1-a''
   \<and> length (last (strings_Split ''projects/123/zones/ab'' CHR ''/'')) < 3
   \<and> ExtractionZone ''projects/123/zones/ab'' = Inr ''ab''"
  by (simp add: ExtractionRegion_eq ExtractionZone_eq last_strings_Split after_last_def)

text \<open>
  C3. For a path \<open>projects/{id}/zones/{zone}\<close> whose zone name is a region followed by a
  dash and one letter, \<open>ExtractionZone\<close> returns the zone name, which is the substring
  after the last \<open>/\<close>, and \<open>ExtractionRegion\<close> returns it without its last two
  characters, which is the region. The region is not empty and the zone name has no \<open>/\<close>.
\<close>

theorem Extraction_zone_path:
  assumes "p = ''projects/'' @ num @ ''/zones/'' @ region @ [CHR ''-'', letter]"
    and "region \<noteq> []"
    and "CHR ''/'' \<notin> set region"
    and "letter \<noteq> CHR ''/''"
  shows "ExtractionZone p = Inr (region @ [CHR ''-'', letter])
       \<and> ExtractionZone p = Inr (after_last CHR ''/'' p)
       \<and> ExtractionRegion p = Inr region
       \<and> ExtractionRegion p = Inr (butlast (butlast (after_last CHR ''/'' p)))"
proof -
  let ?zone = "region @ [CHR ''-'', letter]"
  have "p = (''projects/'' @ num @ ''/zones'') @ CHR ''/'' # ?zone"
    using assms(1) by simp
  then have "after_last CHR ''/'' p = after_last CHR ''/'' ?zone"
    by (simp only: after_last_append)
  also have "\<dots> = ?zone"
    using assms(3,4) by (intro after_last_without) auto
  finally have seg: "after_last CHR ''/'' p = ?zone" .
  have len: "\<not> length ?zone < 3"
    using assms(2) by (cases region) simp_all
  have "take (length ?zone - 2) ?zone = region"
    by simp
  with len have "ExtractionRegion p = Inr region"
    unfolding ExtractionRegion_eq seg by simp
  moreover have "butlast (butlast ?zone) = region"
    by (simp add: butlast_append)
  ultimately show ?thesis
    unfolding ExtractionZone_eq seg by simp
qed

theorem Extraction_zone_path_witness:
  "ExtractionZone ''projects/123/zones/us-central1-a'' = Inr ''us-central1-a''
   \<and> ExtractionRegion ''projects/123/zones/us-central1-a'' = Inr ''us-central1''"
  using Extraction_zone_path [of "''projects/123/zones/us-central1-a''" "''123''" "''us-central1''" "CHR ''a''"]
  by simp

section \<open>Project and service account\<close>

text \<open>
  C4. Outside the managed environment, \<open>ProjectID\<close> returns \<open>GOOGLE_CLOUD_PROJECT\<close> if
  its value is not empty, else \<open>GCLOUD_PROJECT\<close> if its value is not empty, and fails
  with \<open>NotFound\<close> exactly when neither has a value (\<open>os.Getenv\<close> gives the empty string
  for a variable that is not present); with only \<open>GCLOUD_PROJECT=foo\<close> it returns \<open>foo\<close>.
\<close>

theorem ProjectID_env:
  assumes "\<not> onGCE w"
  shows "(os_Getenv w ''GOOGLE_CLOUD_PROJECT'' \<noteq> [] \<longrightarrow>
            ProjectID w = Inr (os_Getenv w ''GOOGLE_CLOUD_PROJECT''))
       \<and> (os_Getenv w ''GOOGLE_CLOUD_PROJECT'' = [] \<and> os_Getenv w ''GCLOUD_PROJECT'' \<noteq> [] \<longrightarrow>
            ProjectID w = Inr (os_Getenv w ''GCLOUD_PROJECT''))
       \<and> ((\<exists>message kv cause. ProjectID w = Inl (ErrNotFound message kv cause)) \<longleftrightarrow>
            os_Getenv w ''GOOGLE_CLOUD_PROJECT'' = [] \<and> os_Getenv w ''GCLOUD_PROJECT'' = [])
       \<and> ((\<exists>err. ProjectID w = Inl err) \<longleftrightarrow>
            os_Getenv w ''GOOGLE_CLOUD_PROJECT'' = [] \<and> os_Getenv w ''GCLOUD_PROJECT'' = [])
       \<and> (environ w ''GOOGLE_CLOUD_PROJECT'' = None \<and> environ w ''GCLOUD_PROJECT'' = None \<longrightarrow>
            ProjectID w =
              Inl (ErrNotFound
                ''project id environment valiable is not found. plz set $GOOGLE_CLOUD_PROJECT''
                [] None))
       \<and> (environ w ''GOOGLE_CLOUD_PROJECT'' = None \<and> environ w ''GCLOUD_PROJECT'' = Some ''foo'' \<longrightarrow>
            ProjectID w = Inr ''foo'')"
  using assms
  by (auto simp: ProjectID_def Let_def os_Getenv_def NewErrNotFound_def split: option.splits)

theorem ProjectID_env_witness:
  "\<not> onGCE sample_world
   \<and> ProjectID (sample_world\<lparr>environ := [''GCLOUD_PROJECT'' \<mapsto> ''foo'']\<rparr>) = Inr ''foo''
   \<and> ProjectID (sample_world\<lparr>environ :=
         [''GCLOUD_PROJECT'' \<mapsto> ''foo'', ''GOOGLE_CLOUD_PROJECT'' \<mapsto> ''bar'']\<rparr>) = Inr ''bar''
   \<and> ProjectID sample_world =
        Inl (ErrNotFound
          ''project id environment valiable is not found. plz set $GOOGLE_CLOUD_PROJECT''
          [] None)"
  using ProjectID_env [of "sample_world\<lparr>environ := [''GCLOUD_PROJECT'' \<mapsto> ''foo'']\<rparr>"]
    ProjectID_env [of "sample_world\<lparr>environ :=
         [''GCLOUD_PROJECT'' \<mapsto> ''foo'', ''GOOGLE_CLOUD_PROJECT'' \<mapsto> ''bar'']\<rparr>"]
    ProjectID_env [of sample_world]
  by (simp add: sample_world_def os_Getenv_def)

text \<open>
  C7. Outside the managed environment, \<open>ServiceAccountEmail\<close> does not fail: it returns
  the value of \<open>GCLOUD_SERVICE_ACCOUNT\<close> as it is, and the empty string if the variable
  is not present.
\<close>

theorem ServiceAccountEmail_env:
  assumes "\<not> onGCE w"
  shows "ServiceAccountEmail w = Inr (os_Getenv w ''GCLOUD_SERVICE_ACCOUNT'')
       \<and> (\<forall>v. environ w ''GCLOUD_SERVICE_ACCOUNT'' = Some v \<longrightarrow> ServiceAccountEmail w = Inr v)
       \<and> (environ w ''GCLOUD_SERVICE_ACCOUNT'' = None \<longrightarrow> ServiceAccountEmail w = Inr [])"
  using assms by (simp add: ServiceAccountEmail_def os_Getenv_def)

theorem ServiceAccountEmail_env_witness:
  "\<not> onGCE sample_world
   \<and> environ sample_world ''GCLOUD_SERVICE_ACCOUNT'' = None
   \<and> ServiceAccountEmail sample_world = Inr []
   \<and> ServiceAccountEmail
         (sample_world\<lparr>environ := [''GCLOUD_SERVICE_ACCOUNT'' \<mapsto> ''foo@bar.iam.gserviceaccount.com'']\<rparr>)
       = Inr ''foo@bar.iam.gserviceaccount.com''"
  using ServiceAccountEmail_env [of sample_world]
    ServiceAccountEmail_env
      [of "sample_world\<lparr>environ := [''GCLOUD_SERVICE_ACCOUNT'' \<mapsto> ''foo@bar.iam.gserviceaccount.com'']\<rparr>"]
  by (simp add: sample_world_def os_Getenv_def)

text \<open>
  C5. When splitting the service account email at \<open>@\<close> does not give exactly two parts,
  \<open>ServiceAccountName\<close> fails with the error that reports the invalid email (the spec's
  \<open>InvalidFormat\<close>); the split gives exactly two parts exactly when the email has one
  \<open>@\<close>, and then \<open>ServiceAccountName\<close> returns the part before it.
\<close>

theorem ServiceAccountName_split:
  assumes "ServiceAccountEmail w = Inr sa"
  shows "(length (strings_Split sa CHR ''@'') \<noteq> 2 \<longrightarrow>
            ServiceAccountName w = Inl (Errorf (''invalid ServiceAccountEmail. email='' @ sa)))
       \<and> (length (strings_Split sa CHR ''@'') = 2 \<longleftrightarrow> count_list sa CHR ''@'' = 1)
       \<and> (count_list sa CHR ''@'' = 1 \<longrightarrow>
            ServiceAccountName w = Inr (takeWhile (\<lambda>c. c \<noteq> CHR ''@'') sa)
            \<and> (\<exists>domain. sa = takeWhile (\<lambda>c. c \<noteq> CHR ''@'') sa @ CHR ''@'' # domain))"
proof -
  have two: "length (strings_Split sa CHR ''@'') = 2 \<longleftrightarrow> count_list sa CHR ''@'' = 1"
    unfolding length_strings_Split by simp
  have bad: "length (strings_Split sa CHR ''@'') \<noteq> 2 \<longrightarrow>
            ServiceAccountName w = Inl (Errorf (''invalid ServiceAccountEmail. email='' @ sa))"
    using assms by (simp add: ServiceAccountName_def Let_def)
  have good: "ServiceAccountName w = Inr (takeWhile (\<lambda>c. c \<noteq> CHR ''@'') sa)"
    if "count_list sa CHR ''@'' = 1"
  proof -
    from that two have "length (strings_Split sa CHR ''@'') = 2" by simp
    then show ?thesis
      using assms by (simp add: ServiceAccountName_def Let_def nth_first_strings_Split)
  qed
  have parts: "\<exists>domain. sa = takeWhile (\<lambda>c. c \<noteq> CHR ''@'') sa @ CHR ''@'' # domain"
    if "count_list sa CHR ''@'' = 1"
  proof -
    from that have "CHR ''@'' \<in> set sa"
      by (metis count_list_0_iff zero_neq_one)
    then have ne: "dropWhile (\<lambda>c. c \<noteq> CHR ''@'') sa \<noteq> []"
      by auto
    then have "hd (dropWhile (\<lambda>c. c \<noteq> CHR ''@'') sa) = CHR ''@''"
      using hd_dropWhile [OF ne] by simp
    with ne obtain domain where "dropWhile (\<lambda>c. c \<noteq> CHR ''@'') sa = CHR ''@'' # domain"
      by (cases "dropWhile (\<lambda>c. c \<noteq> CHR ''@'') sa") auto
    then have "takeWhile (\<lambda>c. c \<noteq> CHR ''@'') sa @ CHR ''@'' # domain = sa"
      using takeWhile_dropWhile_id [of "\<lambda>c. c \<noteq> CHR ''@''" sa] by simp
    then show ?thesis by metis
  qed
  from two bad good parts show ?thesis
    by blast
qed

theorem ServiceAccountName_split_witness:
  "ServiceAccountName
       (sample_world\<lparr>environ := [''GCLOUD_SERVICE_ACCOUNT'' \<mapsto> ''foo@bar.iam.gserviceaccount.com'']\<rparr>)
     = Inr ''foo''
   \<and> ServiceAccountName (sample_world\<lparr>environ := [''GCLOUD_SERVICE_ACCOUNT'' \<mapsto> ''a@b@c'']\<rparr>)
     = Inl (Errorf ''invalid ServiceAccountEmail. email=a@b@c'')
   \<and> ServiceAccountName sample_world = Inl (Errorf ''invalid ServiceAccountEmail. email='')"
proof -
  let ?w1 = "sample_world\<lparr>environ := [''GCLOUD_SERVICE_ACCOUNT'' \<mapsto> ''foo@bar.iam.gserviceaccount.com'']\<rparr>"
  let ?w2 = "sample_world\<lparr>environ := [''GCLOUD_SERVICE_ACCOUNT'' \<mapsto> ''a@b@c'']\<rparr>"
  have e1: "ServiceAccountEmail ?w1 = Inr ''foo@bar.iam.gserviceaccount.com''"
    and e2: "ServiceAccountEmail ?w2 = Inr ''a@b@c''"
    and e3: "ServiceAccountEmail sample_world = Inr []"
    by (simp_all add: ServiceAccountEmail_def sample_world_def os_Getenv_def)
  have c1: "count_list ''foo@bar.iam.gserviceaccount.com'' CHR ''@'' = 1"
    by simp
  have "ServiceAccountName ?w1 = Inr ''foo''"
    using ServiceAccountName_split [OF e1] c1 by simp
  moreover have "ServiceAccountName ?w2 = Inl (Errorf ''invalid ServiceAccountEmail. email=a@b@c'')"
    using ServiceAccountName_split [OF e2] by (simp add: length_strings_Split)
  moreover have "ServiceAccountName sample_world = Inl (Errorf ''invalid ServiceAccountEmail. email='')"
    using ServiceAccountName_split [OF e3] by (simp add: length_strings_Split)
  ultimately show ?thesis
    by (intro conjI)
qed

text \<open>
  C6. With email \<open>E\<close> and project \<open>P\<close>, \<open>ServiceAccountID\<close> returns
  \<open>projects/P/serviceAccounts/E\<close>. If the email lookup fails, it fails with that error;
  if the email lookup succeeds and the project lookup fails, it fails with that error.
\<close>

theorem ServiceAccountID_compose:
  "(ServiceAccountEmail w = Inr E \<and> ProjectID w = Inr P \<longrightarrow>
      ServiceAccountID w = Inr (''projects/'' @ P @ ''/serviceAccounts/'' @ E))
   \<and> (ServiceAccountEmail w = Inl err \<longrightarrow> ServiceAccountID w = Inl err)
   \<and> (ServiceAccountEmail w = Inr E \<and> ProjectID w = Inl err \<longrightarrow> ServiceAccountID w = Inl err)"
  by (simp add: ServiceAccountID_def)

theorem ServiceAccountID_compose_witness:
  "ServiceAccountID
       (sample_world\<lparr>environ :=
          [''GCLOUD_SERVICE_ACCOUNT'' \<mapsto> ''sa@p.iam.gserviceaccount.com'',
           ''GOOGLE_CLOUD_PROJECT'' \<mapsto> ''p'']\<rparr>)
     = Inr ''projects/p/serviceAccounts/sa@p.iam.gserviceaccount.com''
   \<and> ServiceAccountID (sample_world\<lparr>onGCE := True\<rparr>)
     = Inl (Wrapf ''failed get ServiceAccountEmail : ''
              (Wrapf ''failed http.SendReq. path=service-accounts/default/email : ''
                 (Library ''dial tcp: no such host'')))
   \<and> ServiceAccountID sample_world
     = Inl (ErrNotFound
          ''project id environment valiable is not found. plz set $GOOGLE_CLOUD_PROJECT''
          [] None)"
proof -
  let ?w1 = "sample_world\<lparr>environ :=
          [''GCLOUD_SERVICE_ACCOUNT'' \<mapsto> ''sa@p.iam.gserviceaccount.com'',
           ''GOOGLE_CLOUD_PROJECT'' \<mapsto> ''p'']\<rparr>"
  let ?w2 = "sample_world\<lparr>onGCE := True\<rparr>"
  let ?e2 = "Wrapf ''failed get ServiceAccountEmail : ''
              (Wrapf ''failed http.SendReq. path=service-accounts/default/email : ''
                 (Library ''dial tcp: no such host''))"
  let ?e3 = "ErrNotFound
          ''project id environment valiable is not found. plz set $GOOGLE_CLOUD_PROJECT''
          [] None"
  have e1: "ServiceAccountEmail ?w1 = Inr ''sa@p.iam.gserviceaccount.com''"
    and p1: "ProjectID ?w1 = Inr ''p''"
    by (simp_all add: ServiceAccountEmail_def ProjectID_def sample_world_def os_Getenv_def)
  have e2: "ServiceAccountEmail ?w2 = Inl ?e2"
    by (simp add: ServiceAccountEmail_def getMetadata_def sample_world_def)
  have e3: "ServiceAccountEmail sample_world = Inr []"
    and p3: "ProjectID sample_world = Inl ?e3"
    by (simp_all add: ServiceAccountEmail_def ProjectID_def sample_world_def os_Getenv_def
        NewErrNotFound_def)
  have "ServiceAccountID ?w1 = Inr (''projects/'' @ ''p'' @ ''/serviceAccounts/'' @ ''sa@p.iam.gserviceaccount.com'')"
    using ServiceAccountID_compose [of ?w1 "''sa@p.iam.gserviceaccount.com''" "''p''"] e1 p1
    by blast
  then have "ServiceAccountID ?w1 = Inr ''projects/p/serviceAccounts/sa@p.iam.gserviceaccount.com''"
    by simp
  moreover have "ServiceAccountID ?w2 = Inl ?e2"
    using ServiceAccountID_compose [of ?w2 _ _ ?e2] e2 by blast
  moreover have "ServiceAccountID sample_world = Inl ?e3"
    using ServiceAccountID_compose [of sample_world "[]" _ ?e3] e3 p3 by blast
  ultimately show ?thesis
    by (intro conjI)
qed

section \<open>The statement of the stats fetch\<close>

lemma template_Parse_queryStatsTopMinute:
  "template_Parse queryStatsTopMinute =
     Some [TextNode ''\<newline>SELECT\<newline>  text,\<newline>  text_truncated,\<newline>  text_fingerprint,\<newline>  interval_end,\<newline>  execution_count,\<newline>  avg_latency_seconds,\<newline>  avg_rows,\<newline>  avg_bytes,\<newline>  avg_rows_scanned,\<newline>  avg_cpu_seconds\<newline>FROM '',
           FieldNode ''Table'',
           TextNode ''\<newline>'']"
  by (simp add: template_Parse_def queryStatsTopMinute_def)

lemma NewQueryStatsCopyService_eq:
  "NewQueryStatsCopyService =
     Inr \<lparr>queryStatsTopQueryTemplate =
       [TextNode ''\<newline>SELECT\<newline>  text,\<newline>  text_truncated,\<newline>  text_fingerprint,\<newline>  interval_end,\<newline>  execution_count,\<newline>  avg_latency_seconds,\<newline>  avg_rows,\<newline>  avg_bytes,\<newline>  avg_rows_scanned,\<newline>  avg_cpu_seconds\<newline>FROM '',
        FieldNode ''Table'',
        TextNode ''\<newline>'']\<rparr>"
  by (simp add: NewQueryStatsCopyService_def template_Parse_queryStatsTopMinute)

text \<open>
  C8, as amended. The service is built without error, and for every \<open>table\<close> argument
  the statement that \<open>GetQueryStats\<close> sends is the fixed select list, \<open>FROM\<close>, the
  argument as the caller gave it, and a newline. The table name is a \<open>string\<close> parameter:
  nothing compares it with the three view names.
\<close>

theorem GetQueryStats_statement_table:
  "\<not> isl NewQueryStatsCopyService
   \<and> GetQueryStats_statement (projr NewQueryStatsCopyService) table =
       Inr (''\<newline>SELECT\<newline>  text,\<newline>  text_truncated,\<newline>  text_fingerprint,\<newline>  interval_end,\<newline>  execution_count,\<newline>  avg_latency_seconds,\<newline>  avg_rows,\<newline>  avg_bytes,\<newline>  avg_rows_scanned,\<newline>  avg_cpu_seconds\<newline>FROM ''
            @ table @ ''\<newline>'')
   \<and> GetQueryStats spannerQuery (projr NewQueryStatsCopyService) table =
       readRows (spannerQuery (''\<newline>SELECT\<newline>  text,\<newline>  text_truncated,\<newline>  text_fingerprint,\<newline>  interval_end,\<newline>  execution_count,\<newline>  avg_latency_seconds,\<newline>  avg_rows,\<newline>  avg_bytes,\<newline>  avg_rows_scanned,\<newline>  avg_cpu_seconds\<newline>FROM ''
            @ table @ ''\<newline>'')) []"
  by (simp add: NewQueryStatsCopyService_eq GetQueryStats_def GetQueryStats_statement_def)

text \<open>
  The claim as it was stated fails: a name that is none of the three view names is put
  into the statement.
\<close>

theorem GetQueryStats_table_counterexample:
  "''accounts'' \<noteq> queryStatsTopMinuteTable
   \<and> ''accounts'' \<noteq> queryStatsTop10MinuteTable
   \<and> ''accounts'' \<noteq> queryStatsTopHourTable
   \<and> GetQueryStats_statement (projr NewQueryStatsCopyService) ''accounts'' =
       Inr ''\<newline>SELECT\<newline>  text,\<newline>  text_truncated,\<newline>  text_fingerprint,\<newline>  interval_end,\<newline>  execution_count,\<newline>  avg_latency_seconds,\<newline>  avg_rows,\<newline>  avg_bytes,\<newline>  avg_rows_scanned,\<newline>  avg_cpu_seconds\<newline>FROM accounts\<newline>''"
  by (simp add: NewQueryStatsCopyService_eq GetQueryStats_statement_def
      queryStatsTopMinuteTable_def queryStatsTop10MinuteTable_def queryStatsTopHourTable_def)

section \<open>Copying to the warehouse\<close>

lemma wrapAll_all:
  assumes "None \<notin> set qss"
  shows "wrapAll qss h sss =
     Some (\<lambda>a. if Some a \<in> set qss then snd (ToInsertID (h a)) else h a,
           sss @ map (\<lambda>qs. \<lparr>Schema = queryStatsBigQueryTableSchema,
                               SaverInsertID = fst (ToInsertID (h (the qs))), Struct = qs\<rparr>) qss)"
  using assms
proof (induction qss arbitrary: h sss)
  case Nil
  show ?case by simp
next
  case (Cons qs qss)
  from Cons.prems obtain a where qs: "qs = Some a"
    by (cases qs) auto
  from Cons.prems have rest: "None \<notin> set qss"
    by simp
  define h1 where "h1 = h(a := h a\<lparr>InsertID := insertID_text (h a)\<rparr>)"
  have id1: "fst (ToInsertID (h1 x)) = fst (ToInsertID (h x))" for x
    by (simp add: h1_def ToInsertID_eq)
  have st1: "snd (ToInsertID (h1 x)) = snd (ToInsertID (h x))" for x
    by (simp add: h1_def ToInsertID_eq)
  have heap: "(\<lambda>x. if Some x \<in> set qss then snd (ToInsertID (h1 x)) else h1 x)
            = (\<lambda>x. if Some x \<in> set (qs # qss) then snd (ToInsertID (h x)) else h x)"
    by (rule ext) (simp add: st1 qs, simp add: h1_def ToInsertID_eq)
  have "wrapAll (qs # qss) h sss =
          wrapAll qss h1
            (sss @ [\<lparr>Schema = queryStatsBigQueryTableSchema,
                     SaverInsertID = fst (ToInsertID (h a)), Struct = qs\<rparr>])"
    by (simp add: qs h1_def ToInsertID_eq)
  also have "\<dots> =
     Some (\<lambda>x. if Some x \<in> set qss then snd (ToInsertID (h1 x)) else h1 x,
           (sss @ [\<lparr>Schema = queryStatsBigQueryTableSchema,
                     SaverInsertID = fst (ToInsertID (h a)), Struct = qs\<rparr>])
             @ map (\<lambda>qs. \<lparr>Schema = queryStatsBigQueryTableSchema,
                               SaverInsertID = fst (ToInsertID (h1 (the qs))), Struct = qs\<rparr>) qss)"
    by (rule Cons.IH [OF rest])
  finally show ?case
    unfolding heap by (simp add: id1 qs)
qed

text \<open>
  C9. For a slice of \<open>n\<close> pointers to records, none of them nil, \<open>ToBigQuery\<close> makes one
  \<open>Put\<close> call with \<open>n\<close> rows in the order of the slice. Row \<open>i\<close> has the fixed schema,
  points to record \<open>i\<close> and carries the identifier that \<open>ToInsertID\<close> computes from that
  record, which is also stored in the record. Rows of two records with the same
  \<open>IntervalEnd\<close> and different \<open>TextFingerprint\<close> carry different identifiers.
\<close>

theorem ToBigQuery_rows:
  assumes "None \<notin> set qss"
  shows
    "let rows = map (\<lambda>qs. \<lparr>Schema = queryStatsBigQueryTableSchema,
                             SaverInsertID = fst (ToInsertID (records st (the qs))),
                             Struct = qs\<rparr>) qss;
         call = \<lparr>putProject = DatasetProjectID d, putDataset = DatasetID d, putTable = table,
                 putRows = rows\<rparr>;
         h' = (\<lambda>a. if Some a \<in> set qss then snd (ToInsertID (records st a)) else records st a)
     in ToBigQuery Put (Some d) table qss st
          = Some (Put call h', \<lparr>records = h', puts = puts st @ [call]\<rparr>)
        \<and> length rows = length qss
        \<and> (\<forall>i<length qss. InsertID (h' (the (qss ! i))) = SaverInsertID (rows ! i))
        \<and> (\<forall>i<length qss. \<forall>j<length qss.
              IntervalEnd (records st (the (qss ! i))) = IntervalEnd (records st (the (qss ! j)))
              \<and> TextFingerprint (records st (the (qss ! i)))
                  \<noteq> TextFingerprint (records st (the (qss ! j)))
              \<longrightarrow> SaverInsertID (rows ! i) \<noteq> SaverInsertID (rows ! j))"
proof -
  have run: "ToBigQuery Put (Some d) table qss st =
      Some (Put \<lparr>putProject = DatasetProjectID d, putDataset = DatasetID d, putTable = table,
                 putRows = map (\<lambda>qs. \<lparr>Schema = queryStatsBigQueryTableSchema,
                             SaverInsertID = fst (ToInsertID (records st (the qs))),
                             Struct = qs\<rparr>) qss\<rparr>
              (\<lambda>a. if Some a \<in> set qss then snd (ToInsertID (records st a)) else records st a),
            \<lparr>records = (\<lambda>a. if Some a \<in> set qss then snd (ToInsertID (records st a)) else records st a),
             puts = puts st @ [\<lparr>putProject = DatasetProjectID d, putDataset = DatasetID d,
                 putTable = table,
                 putRows = map (\<lambda>qs. \<lparr>Schema = queryStatsBigQueryTableSchema,
                             SaverInsertID = fst (ToInsertID (records st (the qs))),
                             Struct = qs\<rparr>) qss\<rparr>]\<rparr>)"
    by (simp add: ToBigQuery_def wrapAll_all [OF assms] Let_def)
  have stored: "InsertID (if Some (the (qss ! i)) \<in> set qss
                  then snd (ToInsertID (records st (the (qss ! i))))
                  else records st (the (qss ! i)))
                = fst (ToInsertID (records st (the (qss ! i))))" if "i < length qss" for i
  proof -
    from that have "qss ! i \<in> set qss" by simp
    moreover from this assms have "qss ! i \<noteq> None" by metis
    ultimately have "Some (the (qss ! i)) \<in> set qss" by simp
    then show ?thesis by (simp add: ToInsertID_eq)
  qed
  have differ: "fst (ToInsertID s) \<noteq> fst (ToInsertID t)"
    if "IntervalEnd s = IntervalEnd t" "TextFingerprint s \<noteq> TextFingerprint t" for s t
    using that insertID_text_inj [of s t] by (auto simp: ToInsertID_eq)
  show ?thesis
    unfolding Let_def
    by (intro conjI allI impI) (simp_all add: run stored differ)
qed

lemma insertID_text_samples:
  "insertID_text sample_stat = ''1577836800-_-42''"
  "insertID_text sample_stat2 = ''1577836800-_--7''"
proof -
  have d1: "FormatInt 1577836800 = ''1577836800''" and d2: "FormatInt 42 = ''42''"
    and d3: "FormatInt (- 7) = ''-7''"
    by (simp_all add: FormatInt_eval)
  show "insertID_text sample_stat = ''1577836800-_-42''"
    by (simp add: insertID_text_def sample_stat_def Unix_def d1 d2)
  show "insertID_text sample_stat2 = ''1577836800-_--7''"
    by (simp add: insertID_text_def sample_stat_def sample_stat2_def Unix_def d1 d3)
qed

theorem ToBigQuery_rows_witness:
  "None \<notin> set [Some 0, Some (1::nat)]
   \<and> map_option (\<lambda>r. (fst r, puts (snd r)))
        (ToBigQuery (\<lambda>call h. None) (Some sample_dataset) ''query_stats'' [Some 0, Some 1]
           \<lparr>records = sample_heap, puts = []\<rparr>)
      = Some (None,
          [\<lparr>putProject = ''proj'', putDataset = ''stats'', putTable = ''query_stats'',
            putRows =
              [\<lparr>Schema = queryStatsBigQueryTableSchema, SaverInsertID = ''1577836800-_-42'',
                Struct = Some 0\<rparr>,
               \<lparr>Schema = queryStatsBigQueryTableSchema, SaverInsertID = ''1577836800-_--7'',
                Struct = Some 1\<rparr>]\<rparr>])
   \<and> ''1577836800-_-42'' \<noteq> ''1577836800-_--7''"
proof -
  have nn: "None \<notin> set [Some 0, Some (1::nat)]"
    by simp
  note run = ToBigQuery_rows [OF nn, where st = "\<lparr>records = sample_heap, puts = []\<rparr>"
        and d = sample_dataset and table = "''query_stats''" and Put = "\<lambda>call h. None",
        unfolded Let_def, THEN conjunct1]
  have rows: "map_option (\<lambda>r. (fst r, puts (snd r)))
        (ToBigQuery (\<lambda>call h. None) (Some sample_dataset) ''query_stats'' [Some 0, Some 1]
           \<lparr>records = sample_heap, puts = []\<rparr>)
      = Some (None,
          [\<lparr>putProject = ''proj'', putDataset = ''stats'', putTable = ''query_stats'',
            putRows =
              [\<lparr>Schema = queryStatsBigQueryTableSchema, SaverInsertID = ''1577836800-_-42'',
                Struct = Some 0\<rparr>,
               \<lparr>Schema = queryStatsBigQueryTableSchema, SaverInsertID = ''1577836800-_--7'',
                Struct = Some 1\<rparr>]\<rparr>])"
    unfolding run
    by (simp add: sample_dataset_def sample_heap_def ToInsertID_eq insertID_text_samples)
  from nn rows show ?thesis
    by simp
qed

end
